theory Spec2Isabelle
  imports Main
begin

section \<open>Data model\<close>

text \<open>
  Primary keys of users, groups, invitations and applications are natural numbers.
  A group row carries its creator and the two many-to-many relations \<open>members\<close> and
  \<open>admins\<close>; the relations are sets of user keys, as a many-to-many table holds each
  pair at most once.
\<close>

record group =
  creator :: nat
  name :: string
  members :: "nat set"
  admins :: "nat set"

record email_invitation =
  inv_id :: nat
  secret_key :: string
  email :: string
  inv_group :: nat
  inv_user :: nat

text \<open>
  An application points at its group through a generic relation: the content type of
  the group model and the key of the group.
\<close>

record application =
  app_id :: nat
  app_user :: nat
  content_type :: string
  object_id :: nat
  created :: nat

text \<open>
  The persistent state: the tables behind \<open>User\<close>, \<open>self.model\<close>,
  \<open>EmailInvitation\<close> and \<open>UserGroupApplication\<close>, and the notifications handed to
  the optional notification application. Every call of the relational mapping writes
  at once; a view that raises afterwards leaves its earlier writes in place.
\<close>

record db =
  users :: "nat set"
  groups :: "nat \<rightharpoonup> group"
  email_invitations :: "email_invitation list"
  applications :: "application list"
  sent :: "(nat set \<times> string) list"

datatype http_method = GET | POST

text \<open>
  A request: \<open>request.method\<close>, \<open>request.user\<close> (\<open>None\<close> for the anonymous user),
  \<open>request.is_ajax()\<close>, the time a clock read during the request gives, and whether
  \<open>is_valid()\<close> holds of the form that the view builds from the request's data (the
  form classes belong to the framework and to the absent forms module).
\<close>

record request =
  req_method :: http_method
  user :: "nat option"
  is_ajax :: bool
  now :: nat
  form_valid :: bool

text \<open>Template context values, and a context as a dictionary in association-list form.\<close>

datatype cval =
    CNone
  | CStr string
  | CBool bool
  | CGroup nat
  | CUser nat
  | CApplication nat
  | CForm
  | CDict "(string \<times> cval) list"

type_synonym ctx = "(string \<times> cval) list"

text \<open>
  \<open>reverse(name, args=(slug, pk))\<close> is kept symbolic; \<open>AbsoluteUrl pk\<close> stands for
  \<open>group.get_absolute_url()\<close> and \<open>LoginUrl\<close> for the log-in page.
\<close>

datatype url = Reverse string string "nat list" | AbsoluteUrl nat | LoginUrl

datatype py_error =
    NameError string
  | AttributeError string
  | MultipleObjectsReturned

text \<open>
  What a view gives back. \<open>Uncaught e\<close> is an exception that leaves the view.
  No constructor stands for a JSON body: every branch of the source that would build
  one raises before it returns.
\<close>

datatype response =
    HttpResponseRedirect url
  | HttpResponseBadRequest
  | HttpResponseForbidden
  | Http404
  | TemplateResponse string ctx
  | Uncaught py_error

text \<open>
  A configuration object: its slug, the content type of its group model, and whether
  the module-level \<open>notification\<close> is set.
\<close>

record configuration =
  slug :: string
  model :: string
  notification :: bool

section \<open>The relational mapping\<close>

definition upd_group :: "nat \<Rightarrow> (group \<Rightarrow> group) \<Rightarrow> db \<Rightarrow> db" where
  "upd_group gid f s =
     (case groups s gid of
        None \<Rightarrow> s
      | Some g \<Rightarrow> s\<lparr>groups := (groups s)(gid \<mapsto> f g)\<rparr>)"

definition members_all :: "db \<Rightarrow> nat \<Rightarrow> nat set" where
  "members_all s gid = (case groups s gid of None \<Rightarrow> {} | Some g \<Rightarrow> members g)"

definition admins_all :: "db \<Rightarrow> nat \<Rightarrow> nat set" where
  "admins_all s gid = (case groups s gid of None \<Rightarrow> {} | Some g \<Rightarrow> admins g)"

definition members_add :: "nat \<Rightarrow> nat \<Rightarrow> db \<Rightarrow> db" where
  "members_add gid u = upd_group gid (\<lambda>g. g\<lparr>members := insert u (members g)\<rparr>)"

definition members_remove :: "nat \<Rightarrow> nat \<Rightarrow> db \<Rightarrow> db" where
  "members_remove gid u = upd_group gid (\<lambda>g. g\<lparr>members := members g - {u}\<rparr>)"

definition admins_add :: "nat \<Rightarrow> nat \<Rightarrow> db \<Rightarrow> db" where
  "admins_add gid u = upd_group gid (\<lambda>g. g\<lparr>admins := insert u (admins g)\<rparr>)"

text \<open>
  Modelled from the spec: \<open>BaseUserGroup.remove_admin\<close>, a method of the absent
  models module. The spec: revoking "removes user from admins only; user remains a
  member".
\<close>

definition remove_admin :: "nat \<Rightarrow> nat \<Rightarrow> db \<Rightarrow> db" where
  "remove_admin gid u = upd_group gid (\<lambda>g. g\<lparr>admins := admins g - {u}\<rparr>)"

text \<open>
  Modelled from the spec: \<open>BaseUserGroup.delete\<close>, the custom delete method of the
  absent models module. The spec only says that the group is deleted: the row goes.
\<close>

definition group_delete :: "nat \<Rightarrow> db \<Rightarrow> db" where
  "group_delete gid s = s\<lparr>groups := (groups s)(gid := None)\<rparr>"

text \<open>
  Modelled from the spec: \<open>BaseUserGroup.is_admin\<close> of the absent models module.
  The spec: "creator is always treated as having admin rights".
\<close>

definition is_admin :: "group \<Rightarrow> nat option \<Rightarrow> bool" where
  "is_admin g u = (case u of None \<Rightarrow> False | Some a \<Rightarrow> a = creator g \<or> a \<in> admins g)"

section \<open>Decorators and helpers\<close>

text \<open>
  \<open>login_required\<close> (of the framework): the anonymous user is sent to the log-in
  page; otherwise the view runs, here with the key of \<open>request.user\<close>.
\<close>

definition login_required ::
  "(nat \<Rightarrow> db \<Rightarrow> response \<times> db) \<Rightarrow> request \<Rightarrow> db \<Rightarrow> response \<times> db" where
  "login_required view req s =
     (case user req of
        None \<Rightarrow> (HttpResponseRedirect LoginUrl, s)
      | Some u \<Rightarrow> view u s)"

text \<open>
  Modelled from the spec: \<open>group_admin_required\<close> of the absent decorators module,
  "a permission decorator (resolve a group from a request path and require admin
  rights)"; a user without them gets the forbidden response. The view receives the
  resolved group: its key and its row.
\<close>

definition group_admin_required ::
  "(nat \<Rightarrow> group \<Rightarrow> db \<Rightarrow> response \<times> db) \<Rightarrow> request \<Rightarrow> nat \<Rightarrow> db \<Rightarrow> response \<times> db" where
  "group_admin_required view req gid s =
     (case groups s gid of
        None \<Rightarrow> (Http404, s)
      | Some g \<Rightarrow>
          if is_admin g (user req) then view gid g s else (HttpResponseForbidden, s))"

definition has_permission :: "nat \<Rightarrow> group \<Rightarrow> bool" where
  "has_permission u g = (u = creator g \<or> u \<in> admins g)"

fun dict_set :: "string \<Rightarrow> cval \<Rightarrow> ctx \<Rightarrow> ctx" where
  "dict_set k v [] = [(k, v)]"
| "dict_set k v (kv # d) = (if fst kv = k then (k, v) # d else kv # dict_set k v d)"

definition dict_update :: "ctx \<Rightarrow> ctx \<Rightarrow> ctx" where
  "dict_update d kvs = fold (\<lambda>kv. dict_set (fst kv) (snd kv)) kvs d"

text \<open>\<open>x or {}\<close> on an optional dictionary: \<open>None\<close> and the empty dictionary are falsy.\<close>

definition or_empty :: "ctx option \<Rightarrow> ctx" where
  "or_empty ec = (case ec of None \<Rightarrow> [] | Some d \<Rightarrow> d)"

definition confirmation :: "nat \<Rightarrow> cval \<Rightarrow> ctx option \<Rightarrow> response" where
  "confirmation gid action extra_context =
     TemplateResponse ''usergroups/confirm_action.html''
       (dict_update (or_empty extra_context) [(''group'', CGroup gid), (''action'', action)])"

text \<open>\<open>x or None\<close> on an optional dictionary.\<close>

definition or_none :: "ctx option \<Rightarrow> ctx option" where
  "or_none ec = (case ec of None \<Rightarrow> None | Some d \<Rightarrow> if d = [] then None else Some d)"

text \<open>
  \<open>objects.get(...)\<close>: the one row that matches, or one of the two exceptions
  \<open>DoesNotExist\<close> and \<open>MultipleObjectsReturned\<close>.
\<close>

datatype 'a lookup = DoesNotExist | Found 'a | Multiple

definition objects_get :: "('a \<Rightarrow> bool) \<Rightarrow> 'a list \<Rightarrow> 'a lookup" where
  "objects_get p rows =
     (case filter p rows of
        [] \<Rightarrow> DoesNotExist
      | [x] \<Rightarrow> Found x
      | _ \<Rightarrow> Multiple)"

text \<open>\<open>EmailInvitation.objects.filter(secret_key=key)\<close>.\<close>

definition with_key :: "string \<Rightarrow> email_invitation list \<Rightarrow> email_invitation list" where
  "with_key key rows = filter (\<lambda>i. secret_key i = key) rows"

text \<open>The applications of one user for one group of one group model.\<close>

definition applications_of :: "nat \<Rightarrow> string \<Rightarrow> nat \<Rightarrow> application list \<Rightarrow> application list" where
  "applications_of u ctype gid rows =
     filter (\<lambda>a. app_user a = u \<and> content_type a = ctype \<and> object_id a = gid) rows"

text \<open>\<open>get_object_or_404(UserGroupApplication, pk=application_id)\<close>; keys are unique.\<close>

definition application_by_pk :: "nat \<Rightarrow> application list \<Rightarrow> application option" where
  "application_by_pk aid rows = find (\<lambda>a. app_id a = aid) rows"

text \<open>\<open>application.delete()\<close>: the row with the key of the instance goes.\<close>

definition application_delete :: "application \<Rightarrow> db \<Rightarrow> db" where
  "application_delete a s =
     s\<lparr>applications := filter (\<lambda>b. app_id b \<noteq> app_id a) (applications s)\<rparr>"

text \<open>\<open>application.save()\<close> of an instance read from the table: its row is rewritten.\<close>

definition application_save :: "application \<Rightarrow> db \<Rightarrow> db" where
  "application_save a s =
     s\<lparr>applications := map (\<lambda>b. if app_id b = app_id a then a else b) (applications s)\<rparr>"

text \<open>
  \<open>UserGroupApplication.objects.create(user=..., group=group)\<close>: a new row under a key
  not in use, stamped with the time of the request.
\<close>

definition fresh_pk :: "application list \<Rightarrow> nat" where
  "fresh_pk rows = Suc (fold max (map app_id rows) 0)"

definition application_create :: "nat \<Rightarrow> string \<Rightarrow> nat \<Rightarrow> nat \<Rightarrow> db \<Rightarrow> db" where
  "application_create u ctype gid t s =
     s\<lparr>applications := applications s @
        [\<lparr>app_id = fresh_pk (applications s), app_user = u, content_type = ctype,
          object_id = gid, created = t\<rparr>]\<rparr>"

text \<open>\<open>notification.send(users, label, context)\<close>: recorded, nothing else.\<close>

definition notification_send :: "nat set \<Rightarrow> string \<Rightarrow> db \<Rightarrow> db" where
  "notification_send us label s = s\<lparr>sent := sent s @ [(us, label)]\<rparr>"

definition group_detail_url :: "configuration \<Rightarrow> nat \<Rightarrow> url" where
  "group_detail_url self gid = Reverse ''usergroups_group_detail'' (slug self) [gid]"

section \<open>The configurable views\<close>

text \<open>
  The methods of \<open>BaseUserGroupConfiguration\<close>. An \<open>extra_context\<close> parameter that
  the body never reads is left out. The module never imports \<open>datetime\<close>, and the
  names \<open>json_response\<close> and \<open>user\<close> are bound nowhere in it: reading one of them
  raises \<open>NameError\<close>.
\<close>

text \<open>
  \<open>edit_group\<close>. \<open>form.save()\<close> belongs to the framework and to the absent model:
  it is the parameter \<open>form_save\<close>.
\<close>

definition edit_group ::
  "configuration \<Rightarrow> (nat \<Rightarrow> db \<Rightarrow> db) \<Rightarrow> request \<Rightarrow> nat \<Rightarrow> ctx option \<Rightarrow> db \<Rightarrow> response \<times> db" where
  "edit_group self form_save req group_id extra_context =
     login_required (\<lambda>u s.
       case groups s group_id of
         None \<Rightarrow> (Http404, s)
       | Some instance \<Rightarrow>
           if \<not> has_permission u instance then (HttpResponseBadRequest, s)
           else if form_valid req then
             (HttpResponseRedirect (group_detail_url self group_id), form_save group_id s)
           else
             (case or_none extra_context of
                None \<Rightarrow> (Uncaught (AttributeError ''update''), s)
              | Some d \<Rightarrow>
                  (TemplateResponse ''usergroups/group_form.html''
                     (dict_update d [(''form'', CForm)]), s))) req"

definition delete_group :: "configuration \<Rightarrow> request \<Rightarrow> nat \<Rightarrow> db \<Rightarrow> response \<times> db" where
  "delete_group self req group_id =
     login_required (\<lambda>u s.
       case groups s group_id of
         None \<Rightarrow> (Http404, s)
       | Some g \<Rightarrow>
           if \<not> has_permission u g then (HttpResponseBadRequest, s)
           else if req_method req \<noteq> POST then (confirmation group_id (CStr ''delete'') None, s)
           else
             (HttpResponseRedirect (Reverse ''usergroups_delete_group_done'' (slug self) []),
              group_delete group_id s)) req"

definition remove_member ::
  "configuration \<Rightarrow> request \<Rightarrow> nat \<Rightarrow> nat \<Rightarrow> db \<Rightarrow> response \<times> db" where
  "remove_member self req group_id user_id =
     login_required (\<lambda>u s.
       if user_id \<notin> users s then (Http404, s)
       else
         case groups s group_id of
           None \<Rightarrow> (Http404, s)
         | Some g \<Rightarrow>
             if \<not> has_permission u g then (HttpResponseBadRequest, s)
             else if user_id = u then
               (HttpResponseRedirect (Reverse ''usergroups_leave_group'' (slug self) [group_id]), s)
             else if req_method req \<noteq> POST then
               (confirmation group_id (CStr ''delete'') (Some [(''member'', CUser user_id)]), s)
             else
               let s1 = remove_admin group_id user_id s;
                   s2 = members_remove group_id user_id s1
               in if is_ajax req then (Uncaught (NameError ''user''), s2)
                  else (HttpResponseRedirect (group_detail_url self group_id), s2)) req"

definition add_admin ::
  "configuration \<Rightarrow> request \<Rightarrow> nat \<Rightarrow> nat \<Rightarrow> db \<Rightarrow> response \<times> db" where
  "add_admin self req group_id user_id =
     login_required (\<lambda>u s.
       case groups s group_id of
         None \<Rightarrow> (Http404, s)
       | Some g \<Rightarrow>
           if user_id \<notin> users s then (Http404, s)
           else if \<not> has_permission u g then (HttpResponseBadRequest, s)
           else if req_method req \<noteq> POST then
             (confirmation group_id (CStr ''add_admin'') (Some [(''member'', CUser user_id)]), s)
           else
             let s1 = admins_add group_id user_id s;
                 s2 = (if user_id \<notin> members_all s1 group_id
                       then members_add group_id user_id s1 else s1)
             in (HttpResponseRedirect (group_detail_url self group_id), s2)) req"

definition revoke_admin ::
  "configuration \<Rightarrow> request \<Rightarrow> nat \<Rightarrow> nat \<Rightarrow> db \<Rightarrow> response \<times> db" where
  "revoke_admin self req group_id user_id =
     login_required (\<lambda>u s.
       case groups s group_id of
         None \<Rightarrow> (Http404, s)
       | Some g \<Rightarrow>
           if user_id \<notin> users s then (Http404, s)
           else if \<not> has_permission u g then (HttpResponseBadRequest, s)
           else if req_method req \<noteq> POST then
             (confirmation group_id (CStr ''revoke_admin'')
                (Some [(''member'', CUser user_id)]), s)
           else
             let s1 = remove_admin group_id user_id s
             in if is_ajax req then (Uncaught (NameError ''json_response''), s1)
                else (HttpResponseRedirect (group_detail_url self group_id), s1)) req"

definition leave_group :: "configuration \<Rightarrow> request \<Rightarrow> nat \<Rightarrow> db \<Rightarrow> response \<times> db" where
  "leave_group self req group_id =
     login_required (\<lambda>u s.
       case groups s group_id of
         None \<Rightarrow> (Http404, s)
       | Some g \<Rightarrow>
           if req_method req \<noteq> POST then (confirmation group_id (CStr ''leave_group'') None, s)
           else if card (admins_all s group_id) = 1 \<and> u \<in> admins_all s group_id then
             (HttpResponseRedirect (Reverse ''usergroups_delete_group'' (slug self) [group_id]), s)
           else
             let s1 = remove_admin group_id u s;
                 s2 = members_remove group_id u s1
             in if is_ajax req then (Uncaught (NameError ''json_response''), s2)
                else (HttpResponseRedirect (group_detail_url self group_id), s2)) req"

text \<open>
  \<open>create_email_invitation\<close>. \<open>form.send_invitations(slug)\<close> is a method of the
  absent forms module: it is the parameter \<open>send_invitations\<close>. The template gets
  \<open>locals()\<close>; of these the group and the form are kept.
\<close>

definition create_email_invitation ::
  "configuration \<Rightarrow> (string \<Rightarrow> db \<Rightarrow> db) \<Rightarrow> request \<Rightarrow> nat \<Rightarrow> db \<Rightarrow> response \<times> db" where
  "create_email_invitation self send_invitations req group_id =
     login_required (\<lambda>u s.
       case groups s group_id of
         None \<Rightarrow> (Http404, s)
       | Some g \<Rightarrow>
           if \<not> has_permission u g then (HttpResponseBadRequest, s)
           else if form_valid req then
             (HttpResponseRedirect (group_detail_url self group_id),
              send_invitations (slug self) s)
           else
             (TemplateResponse ''usergroups/create_email_invitation.html''
                [(''group'', CGroup group_id), (''form'', CForm)], s)) req"

text \<open>
  \<open>validate_email_invitation\<close>. The \<open>try\<close> block either returns the error view
  (\<open>None\<close> below) or leaves a state in which invitations were deleted; the code after
  the block then adds the requesting user to the members.
\<close>

definition validate_email_invitation ::
  "configuration \<Rightarrow> request \<Rightarrow> nat \<Rightarrow> string \<Rightarrow> db \<Rightarrow> response \<times> db" where
  "validate_email_invitation self req group_id key =
     login_required (\<lambda>u s.
       case groups s group_id of
         None \<Rightarrow> (Http404, s)
       | Some g \<Rightarrow>
           let tried =
             (case objects_get (\<lambda>i. secret_key i = key) (email_invitations s) of
                Found invitation \<Rightarrow>
                  Some (s\<lparr>email_invitations :=
                          filter (\<lambda>i. inv_id i \<noteq> inv_id invitation) (email_invitations s)\<rparr>)
              | DoesNotExist \<Rightarrow> None
              | Multiple \<Rightarrow>
                  Some (s\<lparr>email_invitations :=
                          filter (\<lambda>i. secret_key i \<noteq> key) (email_invitations s)\<rparr>))
           in (case tried of
                 None \<Rightarrow> (TemplateResponse ''usergroups/invalid_invitation.html'' [], s)
               | Some s1 \<Rightarrow>
                   (HttpResponseRedirect
                      (Reverse ''usergroups_group_joined'' (slug self) [group_id]),
                    members_add group_id u s1))) req"

definition approve_application ::
  "configuration \<Rightarrow> request \<Rightarrow> nat \<Rightarrow> nat \<Rightarrow> db \<Rightarrow> response \<times> db" where
  "approve_application self req group_id application_id =
     login_required (\<lambda>u s.
       case groups s group_id of
         None \<Rightarrow> (Http404, s)
       | Some g \<Rightarrow>
           (case application_by_pk application_id (applications s) of
              None \<Rightarrow> (Http404, s)
            | Some application \<Rightarrow>
                if \<not> has_permission u g then (HttpResponseBadRequest, s)
                else if req_method req \<noteq> POST then
                  (confirmation group_id (CStr ''approve_application'')
                     (Some [(''application'', CApplication application_id)]), s)
                else
                  let s1 = members_add group_id (app_user application) s;
                      s2 = application_delete application s1;
                      s3 = (if notification self
                            then notification_send {app_user application}
                                   ''usergroups_application_approved'' s2
                            else s2)
                  in if is_ajax req then (Uncaught (NameError ''json_response''), s3)
                     else (HttpResponseRedirect (group_detail_url self group_id), s3))) req"

definition ignore_application ::
  "configuration \<Rightarrow> request \<Rightarrow> nat \<Rightarrow> nat \<Rightarrow> db \<Rightarrow> response \<times> db" where
  "ignore_application self req group_id application_id =
     login_required (\<lambda>u s.
       case groups s group_id of
         None \<Rightarrow> (Http404, s)
       | Some g \<Rightarrow>
           (case application_by_pk application_id (applications s) of
              None \<Rightarrow> (Http404, s)
            | Some application \<Rightarrow>
                if \<not> has_permission u g then (HttpResponseBadRequest, s)
                else if req_method req \<noteq> POST then
                  (confirmation group_id (CStr ''ignore_application'')
                     (Some [(''application'', CApplication application_id)]), s)
                else
                  let s1 = application_delete application s
                  in if is_ajax req then (Uncaught (NameError ''json_response''), s1)
                     else (HttpResponseRedirect (group_detail_url self group_id), s1))) req"

text \<open>
  \<open>apply_to_join_group\<close>. On a request other than POST the view passes its
  \<open>extra_context\<close> to \<open>confirmation\<close> in the place of the action. The \<open>try\<close> block
  gives an exception that leaves the view, or the state it wrote.
\<close>

definition apply_to_join_group ::
  "configuration \<Rightarrow> request \<Rightarrow> nat \<Rightarrow> ctx option \<Rightarrow> db \<Rightarrow> response \<times> db" where
  "apply_to_join_group self req group_id extra_context =
     login_required (\<lambda>u s.
       case groups s group_id of
         None \<Rightarrow> (Http404, s)
       | Some g \<Rightarrow>
           if req_method req \<noteq> POST then
             (confirmation group_id
                (case extra_context of None \<Rightarrow> CNone | Some d \<Rightarrow> CDict d) None, s)
           else
             let already_member = (u \<in> members_all s group_id);
                 tried =
                   (if \<not> already_member then
                      (case objects_get
                              (\<lambda>a. app_user a = u \<and> content_type a = model self
                                     \<and> object_id a = group_id) (applications s) of
                         Found application \<Rightarrow> Inl (NameError ''datetime'')
                       | Multiple \<Rightarrow> Inl MultipleObjectsReturned
                       | DoesNotExist \<Rightarrow>
                           let s1 = application_create u (model self) group_id (now req) s
                           in Inr (if notification self
                                   then notification_send (admins_all s1 group_id)
                                          ''usergroups_application'' s1
                                   else s1))
                    else Inr s)
             in (case tried of
                   Inl e \<Rightarrow> (Uncaught e, s)
                 | Inr s2 \<Rightarrow>
                     if is_ajax req then (Uncaught (NameError ''json_response''), s2)
                     else
                       (TemplateResponse ''usergroups/application.html''
                          [(''group'', CGroup group_id),
                           (''already_member'', CBool already_member)], s2))) req"

section \<open>The standalone views\<close>

text \<open>
  The functions of the views module, on the one model \<open>UserGroup\<close>. This module
  imports \<open>datetime\<close>. Its lookup of an application by \<open>group=group\<close> is read
  as the lookup by the content type of \<open>UserGroup\<close> and the key of the group.
\<close>

definition usergroup_ctype :: string where
  "usergroup_ctype = ''usergroup''"

definition views_delete_group :: "request \<Rightarrow> nat \<Rightarrow> db \<Rightarrow> response \<times> db" where
  "views_delete_group req group_id =
     group_admin_required (\<lambda>gid g s.
       (TemplateResponse ''usergroups/group_deleted.html'' [(''group_name'', CStr (name g))],
        group_delete gid s)) req group_id"

definition views_add_admin :: "request \<Rightarrow> nat \<Rightarrow> nat \<Rightarrow> db \<Rightarrow> response \<times> db" where
  "views_add_admin req group_id user_id =
     login_required (\<lambda>_.
       group_admin_required (\<lambda>gid g s.
         if user_id \<notin> users s then (Http404, s)
         else
           let s1 = admins_add gid user_id s;
               s2 = (if user_id \<notin> members_all s1 gid
                     then members_add gid user_id s1 else s1)
           in (HttpResponseRedirect (AbsoluteUrl gid), s2)) req group_id) req"

definition views_revoke_admin :: "request \<Rightarrow> nat \<Rightarrow> nat \<Rightarrow> db \<Rightarrow> response \<times> db" where
  "views_revoke_admin req group_id user_id =
     login_required (\<lambda>_.
       group_admin_required (\<lambda>gid g s.
         if user_id \<notin> users s then (Http404, s)
         else (HttpResponseRedirect (AbsoluteUrl gid), remove_admin gid user_id s))
       req group_id) req"

definition views_remove_member :: "request \<Rightarrow> nat \<Rightarrow> nat \<Rightarrow> db \<Rightarrow> response \<times> db" where
  "views_remove_member req group_id user_id =
     login_required (\<lambda>_.
       group_admin_required (\<lambda>gid g s.
         if user_id \<notin> users s then (Http404, s)
         else
           let s1 = remove_admin gid user_id s;
               s2 = members_remove gid user_id s1
           in (HttpResponseRedirect (AbsoluteUrl gid), s2)) req group_id) req"

text \<open>
  \<open>leave_group(request, group, group_id)\<close> is decorated with \<open>login_required\<close> only:
  the group is an argument of the view, here its key.
\<close>

definition views_leave_group :: "request \<Rightarrow> nat \<Rightarrow> nat \<Rightarrow> db \<Rightarrow> response \<times> db" where
  "views_leave_group req grp group_id =
     login_required (\<lambda>u s.
       let s1 = remove_admin grp u s;
           s2 = members_remove grp u s1
       in (HttpResponseRedirect (AbsoluteUrl grp), s2)) req"

definition views_apply_to_join_group :: "request \<Rightarrow> nat \<Rightarrow> db \<Rightarrow> response \<times> db" where
  "views_apply_to_join_group req group_id =
     login_required (\<lambda>u s.
       case groups s group_id of
         None \<Rightarrow> (Http404, s)
       | Some g \<Rightarrow>
           let already_member = (u \<in> members_all s group_id);
               tried =
                 (if \<not> already_member then
                    (case objects_get
                            (\<lambda>a. app_user a = u \<and> content_type a = usergroup_ctype
                                   \<and> object_id a = group_id) (applications s) of
                       Found application \<Rightarrow>
                         Inr (application_save (application\<lparr>created := now req\<rparr>) s)
                     | Multiple \<Rightarrow> Inl MultipleObjectsReturned
                     | DoesNotExist \<Rightarrow>
                         Inr (application_create u usergroup_ctype group_id (now req) s))
                  else Inr s)
           in (case tried of
                 Inl e \<Rightarrow> (Uncaught e, s)
               | Inr s2 \<Rightarrow>
                   (TemplateResponse ''usergroups/application.html''
                      [(''group'', CGroup group_id),
                       (''already_member'', CBool already_member)], s2))) req"

section \<open>Sample data\<close>

text \<open>
  One configuration, one group with key 7 created by user 1 (its only admin) with the
  members 1 and 2, and a third user who is no member.
\<close>

definition ex_conf :: configuration where
  "ex_conf = \<lparr>slug = ''club'', model = ''club'', notification = False\<rparr>"

definition ex_group :: group where
  "ex_group = \<lparr>creator = 1, name = ''chess'', members = {1, 2}, admins = {1}\<rparr>"

definition ex_db :: db where
  "ex_db = \<lparr>users = {1, 2, 3}, groups = [7 \<mapsto> ex_group], email_invitations = [],
            applications = [], sent = []\<rparr>"

definition ex_request :: "http_method \<Rightarrow> nat \<Rightarrow> bool \<Rightarrow> request" where
  "ex_request m u ajax =
     \<lparr>req_method = m, user = Some u, is_ajax = ajax, now = 100, form_valid = False\<rparr>"

text \<open>Three stored invitations: two share the key \<open>k\<close>, one has the key \<open>j\<close>.\<close>

definition ex_invitation :: "nat \<Rightarrow> string \<Rightarrow> email_invitation" where
  "ex_invitation i k =
     \<lparr>inv_id = i, secret_key = k, email = ''a@example.org'', inv_group = 7, inv_user = 1\<rparr>"

definition ex_inv_db :: db where
  "ex_inv_db = ex_db\<lparr>email_invitations :=
     [ex_invitation 1 ''k'', ex_invitation 2 ''k'', ex_invitation 3 ''j'']\<rparr>"

text \<open>A pending application of user 3 for the sample group.\<close>

definition ex_application :: application where
  "ex_application =
     \<lparr>app_id = 5, app_user = 3, content_type = ''club'', object_id = 7, created = 50\<rparr>"

definition ex_app_db :: db where
  "ex_app_db = ex_db\<lparr>applications := [ex_application]\<rparr>"

text \<open>The state in which user \<open>uid\<close> is a member and an admin of the group \<open>gid\<close>.\<close>

definition made_admin :: "nat \<Rightarrow> nat \<Rightarrow> group \<Rightarrow> db \<Rightarrow> db" where
  "made_admin gid uid g s =
     s\<lparr>groups := (groups s)(gid \<mapsto>
        g\<lparr>members := insert uid (members g), admins := insert uid (admins g)\<rparr>)\<rparr>"

section \<open>Properties\<close>

lemmas view_defs = login_required_def group_admin_required_def is_admin_def has_permission_def
  admins_add_def members_add_def members_remove_def remove_admin_def members_all_def
  admins_all_def upd_group_def group_delete_def Let_def group_detail_url_def confirmation_def

lemmas ex_defs = ex_conf_def ex_group_def ex_db_def ex_request_def

subsection \<open>Leaving a group\<close>

lemma sole_admin_iff: "(card A = 1 \<and> u \<in> A) = (A = {u})"
  by (auto simp: card_1_singleton_iff)

text \<open>
  The configurable \<open>leave_group\<close>: when the requesting user is the only admin, a POST
  changes nothing and redirects to the deletion of the group.
\<close>

lemma leave_group_sole_admin_redirects:
  assumes "user req = Some u" and "req_method req = POST"
    and "groups s gid = Some g" and "admins g = {u}"
  shows "leave_group self req gid s
         = (HttpResponseRedirect (Reverse ''usergroups_delete_group'' (slug self) [gid]), s)"
  using assms by (simp add: leave_group_def view_defs)

text \<open>The configurable \<open>leave_group\<close> never empties a set of admins that was not empty.\<close>

lemma leave_group_keeps_an_admin:
  assumes "admins_all s gid \<noteq> {}"
  shows "admins_all (snd (leave_group self req gid s)) gid \<noteq> {}"
proof (cases "admins_all s gid = {the (user req)}")
  case True
  then show ?thesis using assms
    by (auto simp: leave_group_def login_required_def Let_def sole_admin_iff split: option.splits)
next
  case False
  then show ?thesis using assms
    by (auto simp: leave_group_def login_required_def Let_def sole_admin_iff remove_admin_def
          members_remove_def upd_group_def admins_all_def split: option.splits)
qed

text \<open>
  C1. The standalone \<open>leave_group\<close> has no such guard. In the sample group user 1 is
  the only admin; when user 1 leaves by POST, the view removes user 1 from the admins
  and from the members and redirects to the group: the group is left without an admin.
\<close>

theorem views_leave_group_removes_sole_admin:
  "admins_all ex_db 7 = {1}
   \<and> members_all ex_db 7 = {1, 2}
   \<and> fst (views_leave_group (ex_request POST 1 False) 7 7 ex_db)
       = HttpResponseRedirect (AbsoluteUrl 7)
   \<and> admins_all (snd (views_leave_group (ex_request POST 1 False) 7 7 ex_db)) 7 = {}
   \<and> members_all (snd (views_leave_group (ex_request POST 1 False) 7 7 ex_db)) 7 = {2}"
  by (simp add: views_leave_group_def view_defs ex_defs)

subsection \<open>Redeeming an invitation\<close>

lemma objects_get_none:
  "with_key k rows = [] \<Longrightarrow> objects_get (\<lambda>i. secret_key i = k) rows = DoesNotExist"
  by (simp add: objects_get_def with_key_def)

lemma objects_get_one:
  "with_key k rows = [i] \<Longrightarrow> objects_get (\<lambda>i. secret_key i = k) rows = Found i"
  by (simp add: objects_get_def with_key_def)

lemma objects_get_many:
  "1 < length (with_key k rows) \<Longrightarrow> objects_get (\<lambda>i. secret_key i = k) rows = Multiple"
  by (cases "with_key k rows"; cases "tl (with_key k rows)")
     (auto simp: objects_get_def with_key_def)

lemma with_key_filter: "with_key k (filter P rows) = filter P (with_key k rows)"
  by (induction rows) (auto simp: with_key_def)

lemma with_key_delete_pk:
  "with_key k rows = [i] \<Longrightarrow> with_key k (filter (\<lambda>j. inv_id j \<noteq> inv_id i) rows) = []"
  by (simp add: with_key_filter)

lemma with_key_delete_key: "with_key k (filter (\<lambda>j. secret_key j \<noteq> k) rows) = []"
  by (induction rows) (auto simp: with_key_def)

text \<open>
  C2, as stated, fails. Two stored invitations share the key \<open>k\<close>; user 3, who is no
  member, redeems \<open>k\<close> and is a member afterwards: the branch for several matches
  deletes them and runs on into the statement that adds the requesting user.
\<close>

theorem validate_email_invitation_duplicate_key_grants_membership:
  "with_key ''k'' (email_invitations ex_inv_db) = [ex_invitation 1 ''k'', ex_invitation 2 ''k'']
   \<and> 3 \<notin> members_all ex_inv_db 7
   \<and> 3 \<in> members_all
           (snd (validate_email_invitation ex_conf (ex_request GET 3 False) 7 ''k'' ex_inv_db)) 7"
  by (simp add: validate_email_invitation_def objects_get_def with_key_def view_defs ex_defs
      ex_inv_db_def ex_invitation_def)

text \<open>
  C2, amended. For a logged-in user and a group that exists: a key that matches no
  invitation gives the error view and changes nothing; a key that matches exactly one
  invitation deletes that invitation, makes the user a member and redirects to the
  joined view; a key that matches more than one invitation deletes all of them and
  also makes the user a member and redirects to the joined view.
\<close>

theorem validate_email_invitation_outcomes:
  assumes "user req = Some u" and "groups s gid = Some g"
  shows "(with_key k (email_invitations s) = [] \<longrightarrow>
            validate_email_invitation self req gid k s
            = (TemplateResponse ''usergroups/invalid_invitation.html'' [], s))
       \<and> (\<forall>i. with_key k (email_invitations s) = [i] \<longrightarrow>
            fst (validate_email_invitation self req gid k s)
              = HttpResponseRedirect (Reverse ''usergroups_group_joined'' (slug self) [gid])
            \<and> u \<in> members_all (snd (validate_email_invitation self req gid k s)) gid
            \<and> email_invitations (snd (validate_email_invitation self req gid k s))
                = filter (\<lambda>j. inv_id j \<noteq> inv_id i) (email_invitations s)
            \<and> with_key k (email_invitations (snd (validate_email_invitation self req gid k s)))
                = [])
       \<and> (1 < length (with_key k (email_invitations s)) \<longrightarrow>
            fst (validate_email_invitation self req gid k s)
              = HttpResponseRedirect (Reverse ''usergroups_group_joined'' (slug self) [gid])
            \<and> u \<in> members_all (snd (validate_email_invitation self req gid k s)) gid
            \<and> email_invitations (snd (validate_email_invitation self req gid k s))
                = filter (\<lambda>j. secret_key j \<noteq> k) (email_invitations s)
            \<and> with_key k (email_invitations (snd (validate_email_invitation self req gid k s)))
                = [])"
proof -
  let ?r = "validate_email_invitation self req gid k s"
  have none: "with_key k (email_invitations s) = [] \<Longrightarrow>
      ?r = (TemplateResponse ''usergroups/invalid_invitation.html'' [], s)"
    using assms
    by (simp add: validate_email_invitation_def login_required_def objects_get_none)
  have one: "?r = (HttpResponseRedirect (Reverse ''usergroups_group_joined'' (slug self) [gid]),
         members_add gid u (s\<lparr>email_invitations :=
            filter (\<lambda>j. inv_id j \<noteq> inv_id i) (email_invitations s)\<rparr>))"
    if "with_key k (email_invitations s) = [i]" for i
    using assms that
    by (simp add: validate_email_invitation_def login_required_def objects_get_one)
  have many: "?r = (HttpResponseRedirect (Reverse ''usergroups_group_joined'' (slug self) [gid]),
         members_add gid u (s\<lparr>email_invitations :=
            filter (\<lambda>j. secret_key j \<noteq> k) (email_invitations s)\<rparr>))"
    if "1 < length (with_key k (email_invitations s))"
    using assms that
    by (simp add: validate_email_invitation_def login_required_def objects_get_many)
  show ?thesis
    using assms none
    by (auto simp: one many members_add_def upd_group_def members_all_def
          with_key_delete_pk with_key_delete_key)
qed

theorem validate_email_invitation_outcomes_witness:
  "user (ex_request GET 3 False) = Some 3 \<and> groups ex_inv_db 7 = Some ex_group
   \<and> with_key ''x'' (email_invitations ex_inv_db) = []
   \<and> validate_email_invitation ex_conf (ex_request GET 3 False) 7 ''x'' ex_inv_db
       = (TemplateResponse ''usergroups/invalid_invitation.html'' [], ex_inv_db)
   \<and> with_key ''j'' (email_invitations ex_inv_db) = [ex_invitation 3 ''j'']
   \<and> 3 \<in> members_all
           (snd (validate_email_invitation ex_conf (ex_request GET 3 False) 7 ''j'' ex_inv_db)) 7
   \<and> with_key ''j'' (email_invitations
           (snd (validate_email_invitation ex_conf (ex_request GET 3 False) 7 ''j'' ex_inv_db)))
       = []
   \<and> 1 < length (with_key ''k'' (email_invitations ex_inv_db))
   \<and> 3 \<in> members_all
           (snd (validate_email_invitation ex_conf (ex_request GET 3 False) 7 ''k'' ex_inv_db)) 7
   \<and> with_key ''k'' (email_invitations
           (snd (validate_email_invitation ex_conf (ex_request GET 3 False) 7 ''k'' ex_inv_db)))
       = []"
  using validate_email_invitation_outcomes
          [where req = "ex_request GET 3 False" and u = 3 and s = ex_inv_db and gid = 7
             and g = ex_group and k = "''x''" and self = ex_conf]
        validate_email_invitation_outcomes
          [where req = "ex_request GET 3 False" and u = 3 and s = ex_inv_db and gid = 7
             and g = ex_group and k = "''j''" and self = ex_conf]
        validate_email_invitation_outcomes
          [where req = "ex_request GET 3 False" and u = 3 and s = ex_inv_db and gid = 7
             and g = ex_group and k = "''k''" and self = ex_conf]
  by (simp add: ex_defs ex_inv_db_def ex_invitation_def with_key_def)

subsection \<open>Adding an admin\<close>

lemma group_updates_commute:
  "g\<lparr>admins := A, members := M\<rparr> = g\<lparr>members := M, admins := A\<rparr>"
  by (cases g) simp

lemma add_admin_post:
  assumes "user req = Some a" and "req_method req = POST"
    and "groups s gid = Some g" and "uid \<in> users s" and "has_permission a g"
  shows "add_admin self req gid uid s
         = (HttpResponseRedirect (group_detail_url self gid), made_admin gid uid g s)"
proof (cases "uid \<in> members g")
  case True
  then have "insert uid (members g) = members g" by (rule insert_absorb)
  with True assms show ?thesis
    by (simp add: add_admin_def made_admin_def login_required_def admins_add_def
        members_all_def upd_group_def)
next
  case False
  with assms show ?thesis
    by (simp add: add_admin_def made_admin_def login_required_def admins_add_def
        members_add_def members_all_def upd_group_def group_updates_commute)
qed

lemma views_add_admin_post:
  assumes "user req = Some a" and "groups s gid = Some g" and "uid \<in> users s"
    and "has_permission a g"
  shows "views_add_admin req gid uid s
         = (HttpResponseRedirect (AbsoluteUrl gid), made_admin gid uid g s)"
proof (cases "uid \<in> members g")
  case True
  then have "insert uid (members g) = members g" by (rule insert_absorb)
  with True assms show ?thesis
    by (simp add: views_add_admin_def made_admin_def login_required_def
        group_admin_required_def is_admin_def has_permission_def admins_add_def
        members_all_def upd_group_def)
next
  case False
  with assms show ?thesis
    by (simp add: views_add_admin_def made_admin_def login_required_def
        group_admin_required_def is_admin_def has_permission_def admins_add_def
        members_add_def members_all_def upd_group_def group_updates_commute)
qed

lemma made_admin_again:
  "made_admin gid uid
     (g\<lparr>members := insert uid (members g), admins := insert uid (admins g)\<rparr>)
     (made_admin gid uid g s) = made_admin gid uid g s"
  by (simp add: made_admin_def)

text \<open>
  C3. After \<open>add_admin\<close>, called with POST by a permitted actor for a group and a user
  that exist, the user is among the admins and among the members of the group, and the
  response is a redirect. Both implementations do so.
\<close>

theorem add_admin_grants_admin_and_membership:
  assumes "user req = Some a" and "req_method req = POST"
    and "groups s gid = Some g" and "uid \<in> users s" and "has_permission a g"
  shows "uid \<in> admins_all (snd (add_admin self req gid uid s)) gid
       \<and> uid \<in> members_all (snd (add_admin self req gid uid s)) gid
       \<and> fst (add_admin self req gid uid s)
           = HttpResponseRedirect (Reverse ''usergroups_group_detail'' (slug self) [gid])
       \<and> uid \<in> admins_all (snd (views_add_admin req gid uid s)) gid
       \<and> uid \<in> members_all (snd (views_add_admin req gid uid s)) gid
       \<and> fst (views_add_admin req gid uid s) = HttpResponseRedirect (AbsoluteUrl gid)"
  using assms
  by (simp add: add_admin_def views_add_admin_def view_defs)

theorem add_admin_grants_admin_and_membership_witness:
  "user (ex_request POST 1 False) = Some 1 \<and> req_method (ex_request POST 1 False) = POST
   \<and> groups ex_db 7 = Some ex_group \<and> 3 \<in> users ex_db \<and> has_permission 1 ex_group
   \<and> 3 \<notin> members_all ex_db 7
   \<and> 3 \<in> admins_all (snd (add_admin ex_conf (ex_request POST 1 False) 7 3 ex_db)) 7
   \<and> 3 \<in> members_all (snd (add_admin ex_conf (ex_request POST 1 False) 7 3 ex_db)) 7
   \<and> 3 \<in> admins_all (snd (views_add_admin (ex_request POST 1 False) 7 3 ex_db)) 7
   \<and> 3 \<in> members_all (snd (views_add_admin (ex_request POST 1 False) 7 3 ex_db)) 7"
  using add_admin_grants_admin_and_membership
          [of "ex_request POST 1 False" 1 ex_db 7 ex_group 3 ex_conf]
  by (simp add: ex_defs has_permission_def members_all_def)

text \<open>
  C8. For a permitted actor, a POST, and a group and a user that exist, a second
  \<open>add_admin\<close> with the same arguments gives the response and the state of the first:
  the state after two calls is the state after one. Both implementations do so.
\<close>

theorem add_admin_idempotent:
  assumes "user req = Some a" and "req_method req = POST"
    and "groups s gid = Some g" and "uid \<in> users s" and "has_permission a g"
  shows "add_admin self req gid uid (snd (add_admin self req gid uid s))
           = add_admin self req gid uid s
       \<and> views_add_admin req gid uid (snd (views_add_admin req gid uid s))
           = views_add_admin req gid uid s"
proof -
  let ?g' = "g\<lparr>members := insert uid (members g), admins := insert uid (admins g)\<rparr>"
  let ?s' = "made_admin gid uid g s"
  have g': "groups ?s' gid = Some ?g'" and u': "uid \<in> users ?s'"
    using assms by (simp_all add: made_admin_def)
  have p': "has_permission a ?g'"
    using assms by (auto simp: has_permission_def)
  have "add_admin self req gid uid ?s' = add_admin self req gid uid s"
    using add_admin_post [OF assms(1,2) g' u' p'] add_admin_post [OF assms]
    by (simp add: made_admin_again)
  moreover have "views_add_admin req gid uid ?s' = views_add_admin req gid uid s"
    using views_add_admin_post [OF assms(1) g' u' p']
          views_add_admin_post [OF assms(1,3,4,5)]
    by (simp add: made_admin_again)
  ultimately show ?thesis
    using add_admin_post [OF assms] views_add_admin_post [OF assms(1,3,4,5)] by simp
qed

theorem add_admin_idempotent_witness:
  "user (ex_request POST 1 False) = Some 1 \<and> req_method (ex_request POST 1 False) = POST
   \<and> groups ex_db 7 = Some ex_group \<and> 3 \<in> users ex_db \<and> has_permission 1 ex_group
   \<and> add_admin ex_conf (ex_request POST 1 False) 7 3
         (snd (add_admin ex_conf (ex_request POST 1 False) 7 3 ex_db))
       = add_admin ex_conf (ex_request POST 1 False) 7 3 ex_db
   \<and> views_add_admin (ex_request POST 1 False) 7 3
         (snd (views_add_admin (ex_request POST 1 False) 7 3 ex_db))
       = views_add_admin (ex_request POST 1 False) 7 3 ex_db
   \<and> admins_all (snd (add_admin ex_conf (ex_request POST 1 False) 7 3 ex_db)) 7 = {1, 3}
   \<and> members_all (snd (add_admin ex_conf (ex_request POST 1 False) 7 3 ex_db)) 7 = {1, 2, 3}"
  using add_admin_idempotent
          [where req = "ex_request POST 1 False" and a = 1 and s = ex_db and gid = 7
             and g = ex_group and uid = 3 and self = ex_conf]
  by (auto simp: ex_defs add_admin_def view_defs)

subsection \<open>The permission gate\<close>

text \<open>
  C4. Every configurable view that asks \<open>has_permission\<close> (edit, delete, remove
  member, add admin, revoke admin, invite by e-mail, approve and ignore an application),
  called by a logged-in user who is neither the creator nor an admin of the group,
  on a group (and a target user or application) that exists, answers
  \<open>HttpResponseBadRequest\<close> (status 400) and leaves the whole state as it was,
  for every request method.
\<close>

theorem permission_gate_refuses_and_preserves_state:
  assumes "user req = Some a" and "groups s gid = Some g" and "\<not> has_permission a g"
    and "uid \<in> users s" and "application_by_pk aid (applications s) = Some app"
  shows "edit_group self form_save req gid ec s = (HttpResponseBadRequest, s)
       \<and> delete_group self req gid s = (HttpResponseBadRequest, s)
       \<and> remove_member self req gid uid s = (HttpResponseBadRequest, s)
       \<and> add_admin self req gid uid s = (HttpResponseBadRequest, s)
       \<and> revoke_admin self req gid uid s = (HttpResponseBadRequest, s)
       \<and> create_email_invitation self send_invitations req gid s = (HttpResponseBadRequest, s)
       \<and> approve_application self req gid aid s = (HttpResponseBadRequest, s)
       \<and> ignore_application self req gid aid s = (HttpResponseBadRequest, s)"
  using assms
  by (simp add: edit_group_def delete_group_def remove_member_def add_admin_def revoke_admin_def
      create_email_invitation_def approve_application_def ignore_application_def
      login_required_def)

theorem permission_gate_refuses_and_preserves_state_witness:
  "user (ex_request POST 2 False) = Some 2 \<and> groups ex_app_db 7 = Some ex_group
   \<and> \<not> has_permission 2 ex_group \<and> 3 \<in> users ex_app_db
   \<and> application_by_pk 5 (applications ex_app_db) = Some ex_application
   \<and> edit_group ex_conf group_delete (ex_request POST 2 False) 7 None ex_app_db
       = (HttpResponseBadRequest, ex_app_db)
   \<and> delete_group ex_conf (ex_request POST 2 False) 7 ex_app_db
       = (HttpResponseBadRequest, ex_app_db)
   \<and> remove_member ex_conf (ex_request POST 2 False) 7 3 ex_app_db
       = (HttpResponseBadRequest, ex_app_db)
   \<and> add_admin ex_conf (ex_request POST 2 False) 7 3 ex_app_db
       = (HttpResponseBadRequest, ex_app_db)
   \<and> revoke_admin ex_conf (ex_request POST 2 False) 7 3 ex_app_db
       = (HttpResponseBadRequest, ex_app_db)
   \<and> create_email_invitation ex_conf (\<lambda>_. group_delete 7) (ex_request POST 2 False) 7 ex_app_db
       = (HttpResponseBadRequest, ex_app_db)
   \<and> approve_application ex_conf (ex_request POST 2 False) 7 5 ex_app_db
       = (HttpResponseBadRequest, ex_app_db)
   \<and> ignore_application ex_conf (ex_request POST 2 False) 7 5 ex_app_db
       = (HttpResponseBadRequest, ex_app_db)"
  using permission_gate_refuses_and_preserves_state
          [where req = "ex_request POST 2 False" and a = 2 and s = ex_app_db and gid = 7
             and g = ex_group and uid = 3 and aid = 5 and app = ex_application
             and self = ex_conf and form_save = group_delete and ec = None
             and send_invitations = "\<lambda>_. group_delete 7"]
  by (simp add: ex_defs ex_app_db_def ex_application_def has_permission_def
      application_by_pk_def)

subsection \<open>Deleting a group\<close>

text \<open>
  The configurable \<open>delete_group\<close>, for a permitted actor: any method but POST gives
  the confirmation view and changes nothing; a POST deletes the group.
\<close>

lemma delete_group_confirms_first:
  assumes "user req = Some a" and "groups s gid = Some g" and "has_permission a g"
  shows "(req_method req \<noteq> POST \<longrightarrow>
            delete_group self req gid s = (confirmation gid (CStr ''delete'') None, s))
       \<and> (req_method req = POST \<longrightarrow>
            fst (delete_group self req gid s)
              = HttpResponseRedirect (Reverse ''usergroups_delete_group_done'' (slug self) [])
            \<and> groups (snd (delete_group self req gid s)) gid = None)"
  using assms by (simp add: delete_group_def login_required_def group_delete_def)

text \<open>
  C5. The standalone \<open>delete_group\<close> never looks at the method: a GET by the creator
  of the sample group deletes the group and renders the deleted page, with no
  confirmation step.
\<close>

theorem views_delete_group_deletes_on_get:
  "groups ex_db 7 = Some ex_group
   \<and> has_permission 1 ex_group
   \<and> fst (views_delete_group (ex_request GET 1 False) 7 ex_db)
       = TemplateResponse ''usergroups/group_deleted.html'' [(''group_name'', CStr ''chess'')]
   \<and> groups (snd (views_delete_group (ex_request GET 1 False) 7 ex_db)) 7 = None"
  by (simp add: views_delete_group_def view_defs ex_defs)

subsection \<open>Applying to join\<close>

lemma objects_get_applications:
  "objects_get (\<lambda>a. app_user a = u \<and> content_type a = c \<and> object_id a = gid) rows =
     (case applications_of u c gid rows of
        [] \<Rightarrow> DoesNotExist
      | [x] \<Rightarrow> Found x
      | _ \<Rightarrow> Multiple)"
  by (simp add: objects_get_def applications_of_def)

lemma applications_of_append:
  "applications_of u c gid (xs @ ys) = applications_of u c gid xs @ applications_of u c gid ys"
  by (simp add: applications_of_def)

text \<open>Both views, for a member: nothing is written and \<open>already_member\<close> is true.\<close>

lemma views_apply_already_member:
  assumes "user req = Some u" and "groups s gid = Some g" and "u \<in> members g"
  shows "views_apply_to_join_group req gid s
         = (TemplateResponse ''usergroups/application.html''
              [(''group'', CGroup gid), (''already_member'', CBool True)], s)"
  using assms by (simp add: views_apply_to_join_group_def login_required_def members_all_def)

lemma apply_already_member:
  assumes "user req = Some u" and "req_method req = POST" and "\<not> is_ajax req"
    and "groups s gid = Some g" and "u \<in> members g"
  shows "apply_to_join_group self req gid ec s
         = (TemplateResponse ''usergroups/application.html''
              [(''group'', CGroup gid), (''already_member'', CBool True)], s)"
  using assms by (simp add: apply_to_join_group_def login_required_def members_all_def)

text \<open>The standalone view, first application: one row is created.\<close>

lemma views_apply_first:
  assumes "user req = Some u" and "groups s gid = Some g" and "u \<notin> members g"
    and "applications_of u usergroup_ctype gid (applications s) = []"
  shows "views_apply_to_join_group req gid s
         = (TemplateResponse ''usergroups/application.html''
              [(''group'', CGroup gid), (''already_member'', CBool False)],
            application_create u usergroup_ctype gid (now req) s)"
    and "length (applications_of u usergroup_ctype gid
           (applications (snd (views_apply_to_join_group req gid s)))) = 1"
    and "groups (snd (views_apply_to_join_group req gid s)) = groups s"
  using assms
  by (simp_all add: views_apply_to_join_group_def login_required_def members_all_def
      objects_get_applications application_create_def applications_of_append)
     (simp_all add: applications_of_def)

text \<open>The standalone view, second application: the row is stamped again, none is added.\<close>

lemma views_apply_again:
  assumes "user req = Some u" and "groups s gid = Some g" and "u \<notin> members g"
    and "applications_of u usergroup_ctype gid (applications s) = [a]"
  shows "views_apply_to_join_group req gid s
         = (TemplateResponse ''usergroups/application.html''
              [(''group'', CGroup gid), (''already_member'', CBool False)],
            application_save (a\<lparr>created := now req\<rparr>) s)"
    and "length (applications (snd (views_apply_to_join_group req gid s)))
         = length (applications s)"
    and "a\<lparr>created := now req\<rparr>
         \<in> set (applications (snd (views_apply_to_join_group req gid s)))"
proof -
  show r: "views_apply_to_join_group req gid s
         = (TemplateResponse ''usergroups/application.html''
              [(''group'', CGroup gid), (''already_member'', CBool False)],
            application_save (a\<lparr>created := now req\<rparr>) s)"
    using assms
    by (simp add: views_apply_to_join_group_def login_required_def members_all_def
        objects_get_applications)
  show "length (applications (snd (views_apply_to_join_group req gid s)))
         = length (applications s)"
    by (simp add: r application_save_def)
  have "a \<in> set (applications_of u usergroup_ctype gid (applications s))"
    using assms(4) by simp
  then have "a \<in> set (applications s)"
    by (simp add: applications_of_def)
  then show "a\<lparr>created := now req\<rparr>
      \<in> set (applications (snd (views_apply_to_join_group req gid s)))"
    by (force simp: r application_save_def)
qed

lemma views_apply_twice_sample:
  "applications (snd (views_apply_to_join_group ((ex_request POST 3 False)\<lparr>now := 200\<rparr>) 7
         (snd (views_apply_to_join_group (ex_request POST 3 False) 7 ex_db))))
     = [\<lparr>app_id = 1, app_user = 3, content_type = ''usergroup'', object_id = 7, created = 200\<rparr>]"
  by (simp add: views_apply_to_join_group_def objects_get_def application_create_def
      application_save_def fresh_pk_def usergroup_ctype_def view_defs ex_defs)

text \<open>
  C6. The configurable \<open>apply_to_join_group\<close>: user 3, no member of the sample group,
  applies by POST at time 100 and one application is stored. The same user applies
  again at time 200: the view finds the application, reads the unbound name
  \<open>datetime\<close> and leaves with \<open>NameError\<close>; the stored application keeps the time 100.
\<close>

theorem apply_to_join_group_second_call_raises:
  "3 \<notin> members_all ex_db 7
   \<and> applications (snd (apply_to_join_group ex_conf (ex_request POST 3 False) 7 None ex_db))
       = [\<lparr>app_id = 1, app_user = 3, content_type = ''club'', object_id = 7, created = 100\<rparr>]
   \<and> apply_to_join_group ex_conf ((ex_request POST 3 False)\<lparr>now := 200\<rparr>) 7 None
         (snd (apply_to_join_group ex_conf (ex_request POST 3 False) 7 None ex_db))
       = (Uncaught (NameError ''datetime''),
          snd (apply_to_join_group ex_conf (ex_request POST 3 False) 7 None ex_db))"
  by (simp add: apply_to_join_group_def objects_get_def application_create_def fresh_pk_def
      view_defs ex_defs)

subsection \<open>Revoking admin rights\<close>

text \<open>
  C7. After \<open>revoke_admin\<close>, called with POST by a permitted actor for a group and a
  user that exist, the user is not among the admins of the group and the members of the
  group are the same as before, also when the request is an AJAX request. Both
  implementations do so.
\<close>

theorem revoke_admin_removes_admin_only:
  assumes "user req = Some a" and "req_method req = POST"
    and "groups s gid = Some g" and "uid \<in> users s" and "has_permission a g"
  shows "uid \<notin> admins_all (snd (revoke_admin self req gid uid s)) gid
       \<and> members_all (snd (revoke_admin self req gid uid s)) gid = members_all s gid
       \<and> uid \<notin> admins_all (snd (views_revoke_admin req gid uid s)) gid
       \<and> members_all (snd (views_revoke_admin req gid uid s)) gid = members_all s gid"
  using assms
  by (simp add: revoke_admin_def views_revoke_admin_def view_defs)

theorem revoke_admin_removes_admin_only_witness:
  "user (ex_request POST 1 False) = Some 1 \<and> req_method (ex_request POST 1 False) = POST
   \<and> groups ex_db 7 = Some ex_group \<and> 1 \<in> users ex_db \<and> has_permission 1 ex_group
   \<and> 1 \<in> admins_all ex_db 7
   \<and> 1 \<notin> admins_all (snd (revoke_admin ex_conf (ex_request POST 1 False) 7 1 ex_db)) 7
   \<and> members_all (snd (revoke_admin ex_conf (ex_request POST 1 False) 7 1 ex_db)) 7 = {1, 2}
   \<and> 1 \<notin> admins_all (snd (views_revoke_admin (ex_request POST 1 False) 7 1 ex_db)) 7
   \<and> members_all (snd (views_revoke_admin (ex_request POST 1 False) 7 1 ex_db)) 7 = {1, 2}"
  using revoke_admin_removes_admin_only
          [where req = "ex_request POST 1 False" and a = 1 and s = ex_db and gid = 7
             and g = ex_group and uid = 1 and self = ex_conf]
  by (simp add: ex_defs has_permission_def members_all_def admins_all_def)

subsection \<open>Uncaught exceptions\<close>

text \<open>
  C9. Three requests of normal use leave a configurable view with an exception. An
  admin removes a member by an AJAX POST: the member is removed, then the view reads
  the unbound name \<open>user\<close>. An admin opens the edit form by GET: the view calls
  \<open>update\<close> on \<open>None\<close>. A user with a pending application applies again: the view
  reads the unbound name \<open>datetime\<close>.
\<close>

theorem configurable_views_raise:
  "fst (remove_member ex_conf (ex_request POST 1 True) 7 2 ex_db) = Uncaught (NameError ''user'')
   \<and> members_all (snd (remove_member ex_conf (ex_request POST 1 True) 7 2 ex_db)) 7 = {1}
   \<and> fst (edit_group ex_conf form_save (ex_request GET 1 False) 7 None ex_db)
       = Uncaught (AttributeError ''update'')
   \<and> fst (apply_to_join_group ex_conf (ex_request POST 3 False) 7 None ex_app_db)
       = Uncaught (NameError ''datetime'')"
  by (simp add: remove_member_def edit_group_def apply_to_join_group_def or_none_def
      objects_get_def view_defs ex_defs ex_app_db_def ex_application_def insert_Diff_if)

subsection \<open>Removing oneself\<close>

text \<open>
  C10. The configurable \<open>remove_member\<close>, called by a permitted actor with the actor
  as the target, for a group that exists: whatever the method, the state is unchanged
  (nobody leaves the members or the admins) and the response redirects to the
  leave-group view of the group.
\<close>

theorem remove_member_self_redirects_to_leave_group:
  assumes "user req = Some a" and "groups s gid = Some g" and "a \<in> users s"
    and "has_permission a g"
  shows "remove_member self req gid a s
         = (HttpResponseRedirect (Reverse ''usergroups_leave_group'' (slug self) [gid]), s)"
  using assms by (simp add: remove_member_def login_required_def)

theorem remove_member_self_redirects_to_leave_group_witness:
  "user (ex_request POST 1 False) = Some 1 \<and> groups ex_db 7 = Some ex_group \<and> 1 \<in> users ex_db
   \<and> has_permission 1 ex_group
   \<and> remove_member ex_conf (ex_request POST 1 False) 7 1 ex_db
       = (HttpResponseRedirect (Reverse ''usergroups_leave_group'' ''club'' [7]), ex_db)"
  using remove_member_self_redirects_to_leave_group
          [where req = "ex_request POST 1 False" and a = 1 and s = ex_db and gid = 7
             and g = ex_group and self = ex_conf]
  by (simp add: ex_defs has_permission_def)

end
